theory Spec2Isabelle
  imports Complex_Main
begin

section \<open>MIDI-Image: from note messages to a piano-roll picture\<close>

text \<open>
  The development embeds \<^verbatim>\<open>src/main.py\<close>. Python's floats (message times, ratios,
  pixel coordinates before truncation) are read as exact reals; Python's unbounded
  integers are \<open>int\<close>. Canvas sizes are natural numbers, the sizes the imaging library
  accepts.
\<close>

subsection \<open>Messages and events (lines 27--37)\<close>

text \<open>
  A decoded message as the loop reads it: \<open>is_meta\<close>, the delta \<open>time\<close> in seconds, the
  \<open>type\<close> name, and for note messages \<open>note\<close> and \<open>velocity\<close> (the loop reads these two
  only after the type test has succeeded).
\<close>

record msg =
  is_meta :: bool
  msg_time :: real
  msg_type :: string
  msg_note :: int
  msg_velocity :: int

text \<open>An event is the tuple \<open>(current_time, note, velocity, typ)\<close> the first loop appends.\<close>

type_synonym event = "real \<times> int \<times> int \<times> string"

text \<open>A reconstructed note is the tuple \<open>(note, start_time, duration, vel)\<close>.\<close>

type_synonym music_note = "int \<times> real \<times> real \<times> int"

definition msg_step :: "msg \<Rightarrow> real \<times> event list \<Rightarrow> real \<times> event list" where
  "msg_step m st =
     (case st of (current_time, events) \<Rightarrow>
        if \<not> is_meta m then
          (let current_time = current_time + msg_time m in
           if msg_type m = ''note_on'' \<and> msg_velocity m > 0 then
             (current_time, events @ [(current_time, msg_note m, msg_velocity m, ''start'')])
           else if msg_type m = ''note_off'' \<or> (msg_type m = ''note_on'' \<and> msg_velocity m = 0) then
             (current_time, events @ [(current_time, msg_note m, 0, ''end'')])
           else (current_time, events))
        else (current_time, events))"

definition collect_events :: "msg list \<Rightarrow> event list" where
  "collect_events mid = snd (fold msg_step mid (0, []))"

subsection \<open>Pairing starts with ends (lines 40--48)\<close>

text \<open>
  The state of the second loop: the dictionary \<open>active_notes\<close> from pitch to
  \<open>(start_time, velocity)\<close> and the list \<open>music_notes\<close> built so far. \<open>pop\<close> removes the key.
\<close>

type_synonym pairing = "(int \<rightharpoonup> real \<times> int) \<times> music_note list"

definition note_step :: "event \<Rightarrow> pairing \<Rightarrow> pairing" where
  "note_step ev st =
     (case ev of (time, note, velocity, typ) \<Rightarrow>
      case st of (active_notes, music_notes) \<Rightarrow>
        if typ = ''start'' then (active_notes(note \<mapsto> (time, velocity)), music_notes)
        else if typ = ''end'' \<and> note \<in> dom active_notes then
          (case active_notes note of
             None \<Rightarrow> (active_notes, music_notes)
           | Some (start_time, vel) \<Rightarrow>
               (let duration = time - start_time in
                if duration > 0
                then (active_notes(note := None), music_notes @ [(note, start_time, duration, vel)])
                else (active_notes(note := None), music_notes)))
        else (active_notes, music_notes))"

definition pair_events :: "event list \<Rightarrow> pairing" where
  "pair_events events = fold note_step events (Map.empty, [])"

definition pending_after :: "event list \<Rightarrow> int \<Rightarrow> (real \<times> int) option" where
  "pending_after events = fst (pair_events events)"

definition calc_durations :: "event list \<Rightarrow> music_note list" where
  "calc_durations events = snd (pair_events events)"

text \<open>An event concerns pitch \<open>n\<close> when the loop acts on it for that pitch.\<close>

definition touches :: "int \<Rightarrow> event \<Rightarrow> bool" where
  "touches n ev = (case ev of (t, m, v, typ) \<Rightarrow> m = n \<and> (typ = ''start'' \<or> typ = ''end''))"

text \<open>
  \<open>open_start evs n s vel\<close>: some start of pitch \<open>n\<close> at time \<open>s\<close> with velocity \<open>vel\<close>
  occurs in \<open>evs\<close>, and no later event of \<open>evs\<close> concerns \<open>n\<close>.
\<close>

definition open_start :: "event list \<Rightarrow> int \<Rightarrow> real \<Rightarrow> int \<Rightarrow> bool" where
  "open_start evs n s vel =
     (\<exists>pre mid. evs = pre @ (s, n, vel, ''start'') # mid \<and> (\<forall>e \<in> set mid. \<not> touches n e))"

text \<open>
  \<open>closed_pair evs x\<close>: \<open>x\<close> is the interval of a start and the first later event
  concerning the same pitch, that event is an end, and the elapsed time is positive.
\<close>

definition closed_pair :: "event list \<Rightarrow> music_note \<Rightarrow> bool" where
  "closed_pair evs x =
     (\<exists>pre mid post s n vel t v.
        evs = pre @ (s, n, vel, ''start'') # mid @ (t, n, v, ''end'') # post \<and>
        (\<forall>e \<in> set mid. \<not> touches n e) \<and> t - s > 0 \<and> x = (n, s, t - s, vel))"

text \<open>
  Replacing the velocity that end events and note-off messages carry, to state that the
  builder never reads it.
\<close>

definition with_end_velocity :: "(real \<Rightarrow> int \<Rightarrow> int) \<Rightarrow> event \<Rightarrow> event" where
  "with_end_velocity f ev =
     (case ev of (t, n, v, typ) \<Rightarrow> (t, n, (if typ = ''end'' then f t n else v), typ))"

definition with_off_velocity :: "(msg \<Rightarrow> int) \<Rightarrow> msg \<Rightarrow> msg" where
  "with_off_velocity f m = (if msg_type m = ''note_off'' then m\<lparr>msg_velocity := f m\<rparr> else m)"

subsection \<open>Scene extents (lines 54--57)\<close>

datatype error = ValueError | ZeroDivisionError

text \<open>Python's \<open>max\<close> and \<open>min\<close> of an iterable: \<open>ValueError\<close> on an empty one.\<close>

fun py_max :: "'a::linorder list \<Rightarrow> 'a option" where
  "py_max [] = None"
| "py_max (x # xs) = Some (fold max xs x)"

fun py_min :: "'a::linorder list \<Rightarrow> 'a option" where
  "py_min [] = None"
| "py_min (x # xs) = Some (fold min xs x)"

text \<open>
  \<open>(total_duration, min_note, note_range)\<close>; \<open>x or 1\<close> is \<open>1\<close> when \<open>x\<close> is zero and \<open>x\<close>
  otherwise. \<open>None\<close> stands for the \<open>ValueError\<close> of an empty sequence.
\<close>

definition scene_extents :: "music_note list \<Rightarrow> (real \<times> int \<times> int) option" where
  "scene_extents music_notes =
     (case py_max (map (\<lambda>(note, start, duration, vel). start + duration) music_notes) of
        None \<Rightarrow> None
      | Some m \<Rightarrow>
          (let total_duration = (if m = 0 then 1 else m) in
           case py_min (map (\<lambda>(note, start, duration, vel). note) music_notes) of
             None \<Rightarrow> None
           | Some min_note \<Rightarrow>
               (case py_max (map (\<lambda>(note, start, duration, vel). note) music_notes) of
                  None \<Rightarrow> None
                | Some max_note \<Rightarrow>
                    Some (total_duration, min_note, max (max_note - min_note) 1))))"

subsection \<open>The colour mapper (lines 60--121)\<close>

text \<open>Python's \<open>int\<close> of a float truncates towards zero.\<close>

definition py_int :: "real \<Rightarrow> int" where
  "py_int r = (if 0 \<le> r then \<lfloor>r\<rfloor> else \<lceil>r\<rceil>)"

text \<open>The standard library's \<open>colorsys.hsv_to_rgb\<close>.\<close>

definition hsv_to_rgb :: "real \<Rightarrow> real \<Rightarrow> real \<Rightarrow> real list" where
  "hsv_to_rgb h s v =
     (if s = 0 then [v, v, v]
      else
        (let i = py_int (h * 6);
             f = h * 6 - real_of_int i;
             p = v * (1 - s);
             q = v * (1 - s * f);
             t = v * (1 - s * (1 - f));
             i = i mod 6
         in if i = 0 then [v, t, p]
            else if i = 1 then [q, v, p]
            else if i = 2 then [p, v, t]
            else if i = 3 then [p, q, v]
            else if i = 4 then [t, p, v]
            else [v, p, q]))"

definition note_names :: "string list" where
  "note_names = [''C'', ''C#'', ''D'', ''D#'', ''E'', ''F'', ''F#'', ''G'', ''G#'', ''A'', ''A#'', ''B'']"

definition ocean_palettes :: "(char \<times> int list) list" where
  "ocean_palettes =
     [(CHR ''C'', [20, 60, 130]), (CHR ''D'', [40, 120, 180]), (CHR ''E'', [70, 170, 210]),
      (CHR ''F'', [100, 190, 200]), (CHR ''G'', [120, 200, 190]), (CHR ''A'', [150, 210, 170]),
      (CHR ''B'', [180, 220, 150])]"

definition forest_palettes :: "(char \<times> int list) list" where
  "forest_palettes =
     [(CHR ''C'', [30, 70, 40]), (CHR ''D'', [50, 100, 60]), (CHR ''E'', [80, 130, 80]),
      (CHR ''F'', [120, 160, 90]), (CHR ''G'', [160, 190, 100]), (CHR ''A'', [190, 210, 110]),
      (CHR ''B'', [210, 220, 120])]"

definition sunset_palettes :: "(char \<times> int list) list" where
  "sunset_palettes =
     [(CHR ''C'', [180, 50, 70]), (CHR ''D'', [200, 80, 60]), (CHR ''E'', [220, 110, 70]),
      (CHR ''F'', [230, 140, 80]), (CHR ''G'', [240, 170, 90]), (CHR ''A'', [250, 200, 120]),
      (CHR ''B'', [255, 230, 150])]"

text \<open>\<open>d.get(key, default)\<close> on a dictionary given by its items.\<close>

definition dict_get :: "('k \<times> 'v) list \<Rightarrow> 'k \<Rightarrow> 'v \<Rightarrow> 'v" where
  "dict_get d k dflt = (case map_of d k of None \<Rightarrow> dflt | Some v \<Rightarrow> v)"

text \<open>
  \<open>get_color\<close> is a closure over \<open>palette\<close>; its body reads \<open>palette\<close>, \<open>note\<close> and
  \<open>velocity\<close> only, so the embedding is a function of these three.
\<close>

definition get_color :: "string \<Rightarrow> int \<Rightarrow> int \<Rightarrow> int list" where
  "get_color palette note velocity =
     (let base_note = hd (note_names ! nat (note mod 12));
          vel_ratio = real_of_int velocity / 127
      in
      if palette = ''hsv'' then
        (let hue = real_of_int (note mod 12) / 12;
             saturation = 0.7 + vel_ratio * 0.3;
             val = 0.6 + vel_ratio * 0.4
         in map (\<lambda>c. py_int (c * 255)) (hsv_to_rgb hue saturation val))
      else if palette = ''ocean'' then
        (let base_color = dict_get ocean_palettes base_note [200, 200, 200];
             intensity = 0.5 + vel_ratio * 0.5
         in map (\<lambda>c. py_int (real_of_int c * intensity)) base_color)
      else if palette = ''forest'' then
        (let base_color = dict_get forest_palettes base_note [200, 200, 200];
             intensity = 0.6 + vel_ratio * 0.4
         in map (\<lambda>c. py_int (real_of_int c * intensity)) base_color)
      else if palette = ''sunset'' then
        (let base_color = dict_get sunset_palettes base_note [255, 255, 200];
             intensity = 0.5 + vel_ratio * 0.5
         in map (\<lambda>c. min 255 (py_int (real_of_int c * intensity))) base_color)
      else if palette = ''pastel'' then
        (let hue = real_of_int (note mod 12) / 12
         in map (\<lambda>c. py_int (c * 255)) (hsv_to_rgb hue 0.3 0.9))
      else if palette = ''grayscale'' then
        (let intensity = 50 + vel_ratio * 205
         in [py_int intensity, py_int intensity, py_int intensity])
      else if palette = ''fire'' then
        (let heat = vel_ratio * 0.7 + 0.3
         in if heat < 0.5 then [py_int (255 * heat * 2), py_int (100 * heat * 2), 0]
            else [255, py_int (100 + 155 * (heat - 0.5) * 2), py_int (100 * (heat - 0.5) * 2)])
      else if palette = ''ice'' then
        (let coldness = vel_ratio * 0.7 + 0.3
         in [py_int (200 * coldness), py_int (230 * coldness), py_int (255 * coldness)])
      else [200, 200, 200])"

subsection \<open>Canvases and the imaging library\<close>

text \<open>
  A canvas has a size and a pixel at every coordinate; an RGB pixel is a triple, an RGBA
  pixel a quadruple. \<open>Image_new\<close> is \<open>Image.new(mode, (width, height), color)\<close>.
\<close>

record 'p canvas =
  width :: nat
  height :: nat
  pixel :: "nat \<Rightarrow> nat \<Rightarrow> 'p"

type_synonym rgb = "int \<times> int \<times> int"
type_synonym rgba = "int \<times> int \<times> int \<times> int"

definition Image_new :: "nat \<Rightarrow> nat \<Rightarrow> 'p \<Rightarrow> 'p canvas" where
  "Image_new w h color = \<lparr>width = w, height = h, pixel = (\<lambda>x y. color)\<rparr>"

text \<open>
  One call of an \<open>ImageDraw\<close> method with the arguments the source passes: the coordinate
  list, then \<open>fill\<close>, then \<open>outline\<close> or \<open>width\<close>. Colours are tuples of integers.
\<close>

datatype draw_cmd =
    Ellipse "real list" "int list option" "int list option"
  | Line "real list" "int list" int
  | Rectangle "real list" "int list option" "int list option"
  | Polygon "real list" "int list"

text \<open>
  What the source leaves to its libraries and this development does not fix: how one
  drawing call changes an RGB canvas, the two filters, how a pixel that is not fully
  transparent blends over another, and the random generator (a state \<open>'g\<close> and
  \<open>random.randint a b\<close> on it).
\<close>

record 'g pil =
  draw :: "draw_cmd \<Rightarrow> rgb canvas \<Rightarrow> rgb canvas"
  gaussian_blur :: "real \<Rightarrow> rgb canvas \<Rightarrow> rgb canvas"
  smooth_more :: "rgb canvas \<Rightarrow> rgb canvas"
  blend :: "rgba \<Rightarrow> rgba \<Rightarrow> rgba"
  randint :: "int \<Rightarrow> int \<Rightarrow> 'g \<Rightarrow> int \<times> 'g"

text \<open>
  \<open>draw.rectangle([x0, y0, x1, y1], outline=ink)\<close> on a canvas of the ink's own mode:
  the pixels on the border of the box that lie on the canvas take the ink.
\<close>

definition rectangle_outline :: "int list \<Rightarrow> 'p \<Rightarrow> 'p canvas \<Rightarrow> 'p canvas" where
  "rectangle_outline xy ink img =
     (case xy of
        [x0, y0, x1, y1] \<Rightarrow>
          img\<lparr>pixel := (\<lambda>x y.
            if x < width img \<and> y < height img \<and>
               x0 \<le> int x \<and> int x \<le> x1 \<and> y0 \<le> int y \<and> int y \<le> y1 \<and>
               (int x = x0 \<or> int x = x1 \<or> int y = y0 \<or> int y = y1)
            then ink else pixel img x y)\<rparr>
      | _ \<Rightarrow> img)"

definition convert_RGBA :: "rgb canvas \<Rightarrow> rgba canvas" where
  "convert_RGBA img =
     \<lparr>width = width img, height = height img,
      pixel = (\<lambda>x y. case pixel img x y of (r, g, b) \<Rightarrow> (r, g, b, 255))\<rparr>"

definition convert_RGB :: "rgba canvas \<Rightarrow> rgb canvas" where
  "convert_RGB img =
     \<lparr>width = width img, height = height img,
      pixel = (\<lambda>x y. case pixel img x y of (r, g, b, a) \<Rightarrow> (r, g, b))\<rparr>"

text \<open>
  \<open>img.alpha_composite(over)\<close>: a fully transparent pixel of \<open>over\<close> leaves the pixel of
  \<open>img\<close> as it is; any other blends.
\<close>

definition alpha_composite :: "'g pil \<Rightarrow> rgba canvas \<Rightarrow> rgba canvas \<Rightarrow> rgba canvas" where
  "alpha_composite L img over =
     img\<lparr>pixel := (\<lambda>x y.
       case pixel over x y of (r, g, b, a) \<Rightarrow>
         if a = 0 then pixel img x y else blend L (pixel img x y) (r, g, b, a))\<rparr>"

subsection \<open>The vignette (lines 242--255)\<close>

definition vignette_ring :: "nat \<Rightarrow> nat \<Rightarrow> nat \<Rightarrow> real \<Rightarrow> nat \<Rightarrow> rgba canvas \<Rightarrow> rgba canvas" where
  "vignette_ring w h max_border intensity i vignette =
     (let alpha = py_int (70 * (1 - real i / real max_border) * intensity)
      in rectangle_outline [int i, int i, int w - int i, int h - int i] (0, 0, 0, alpha) vignette)"

definition apply_vignette :: "'g pil \<Rightarrow> rgb canvas \<Rightarrow> real \<Rightarrow> rgb canvas" where
  "apply_vignette L img intensity =
     (let w = width img;
          h = height img;
          vignette = Image_new w h (0, 0, 0, 0);
          max_border = min w h div 3;
          vignette = fold (vignette_ring w h max_border intensity) [0..<max_border] vignette;
          img = convert_RGBA img
      in convert_RGB (alpha_composite L img vignette))"

subsection \<open>The style renderers (lines 146--240)\<close>

text \<open>The horizontal pixel of a time, and each style's vertical coordinate of a pitch. The
  renderers' parameter \<open>get_color\<close> is written \<open>color_of\<close>.\<close>

definition time_x :: "nat \<Rightarrow> real \<Rightarrow> real \<Rightarrow> int" where
  "time_x w total_duration t = py_int ((t / total_duration) * real w)"

definition watercolor_y :: "nat \<Rightarrow> int \<Rightarrow> int \<Rightarrow> int \<Rightarrow> real" where
  "watercolor_y h min_note note_range note =
     real h - 50 - (real_of_int (note - min_note) / real_of_int note_range) * (real h - 100)"

definition neon_y :: "nat \<Rightarrow> int \<Rightarrow> int \<Rightarrow> int \<Rightarrow> real" where
  "neon_y h min_note note_range note =
     real h - (real_of_int (note - min_note) / real_of_int note_range) * (real h - 50)"

definition particle_y :: "nat \<Rightarrow> int \<Rightarrow> int \<Rightarrow> int \<Rightarrow> real" where
  "particle_y h min_note note_range note =
     real h - (real_of_int (note - min_note) / real_of_int note_range) * (real h - 50)"

definition geometric_y :: "nat \<Rightarrow> int \<Rightarrow> int \<Rightarrow> int \<Rightarrow> real" where
  "geometric_y h min_note note_range note =
     real h - (real_of_int (note - min_note) / real_of_int note_range) * (real h - 50)"

definition classic_y :: "nat \<Rightarrow> int \<Rightarrow> int \<Rightarrow> int \<Rightarrow> real" where
  "classic_y h min_note note_range note =
     real h - (real_of_int (note - min_note) / real_of_int note_range) * (real h - 50)"

text \<open>
  The drawing calls one note causes, in order. The randomised styles thread the
  generator. A zero \<open>total_duration\<close> or \<open>note_range\<close> makes the first division of the
  first note raise \<open>ZeroDivisionError\<close>; the renderers check it before the loop.
\<close>

fun watercolor_layers :: "'g pil \<Rightarrow> nat \<Rightarrow> real \<Rightarrow> real \<Rightarrow> real \<Rightarrow> int list \<Rightarrow> 'g \<Rightarrow> draw_cmd list \<times> 'g" where
  "watercolor_layers L 0 x1 x2 y color g = ([], g)"
| "watercolor_layers L (Suc k) x1 x2 y color g =
     (case randint L (- 10) 10 g of (offset, g) \<Rightarrow>
      case randint L 5 15 g of (radius, g) \<Rightarrow>
      case watercolor_layers L k x1 x2 y color g of (cmds, g) \<Rightarrow>
        (Ellipse [x1 + real_of_int offset, y - 20 + real_of_int offset,
                  x2 + real_of_int offset, y + 20 + real_of_int offset]
           (Some color) (Some color) # cmds, g))"

definition watercolor_marks ::
  "'g pil \<Rightarrow> nat \<Rightarrow> nat \<Rightarrow> (int \<Rightarrow> int \<Rightarrow> int list) \<Rightarrow> real \<Rightarrow> int \<Rightarrow> int \<Rightarrow> music_note \<Rightarrow> 'g
     \<Rightarrow> draw_cmd list \<times> 'g" where
  "watercolor_marks L w h color_of total_duration min_note note_range nt g =
     (case nt of (note, start, duration, vel) \<Rightarrow>
        (let x1 = time_x w total_duration start;
             x2 = time_x w total_duration (start + duration);
             y = watercolor_y h min_note note_range note;
             color = color_of note vel
         in watercolor_layers L 3 (real_of_int x1) (real_of_int x2) y color g))"

definition neon_marks ::
  "nat \<Rightarrow> nat \<Rightarrow> (int \<Rightarrow> int \<Rightarrow> int list) \<Rightarrow> real \<Rightarrow> int \<Rightarrow> int \<Rightarrow> music_note \<Rightarrow> draw_cmd list" where
  "neon_marks w h color_of total_duration min_note note_range nt =
     (case nt of (note, start, duration, vel) \<Rightarrow>
        (let x1 = real_of_int (time_x w total_duration start);
             x2 = real_of_int (time_x w total_duration (start + duration));
             y = neon_y h min_note note_range note;
             color = color_of note vel
         in map (\<lambda>r.
                  let alpha = min 255 (py_int (30 * (1 - real_of_int r / 10) * 255));
                      glow_color = (if length color = 3 then color @ [alpha]
                                    else [255, 255, 255, alpha])
                  in Line [x1, y, x2, y] glow_color (r * 2))
                [10, 9, 8, 7, 6, 5, 4, 3, 2, 1]
            @ [Line [x1, y, x2, y] color 3]))"

fun particle_loop :: "'g pil \<Rightarrow> nat \<Rightarrow> int \<Rightarrow> real \<Rightarrow> int list \<Rightarrow> 'g \<Rightarrow> draw_cmd list \<times> 'g" where
  "particle_loop L 0 x y color g = ([], g)"
| "particle_loop L (Suc k) x y color g =
     (case randint L (- 30) 30 g of (dx, g) \<Rightarrow>
      case randint L (- 30) 30 g of (dy, g) \<Rightarrow>
      case randint L 1 5 g of (sz, g) \<Rightarrow>
      case particle_loop L k x y color g of (cmds, g) \<Rightarrow>
        (let px = real_of_int (x + dx); py = y + real_of_int dy
         in (Ellipse [px - real_of_int sz, py - real_of_int sz,
                      px + real_of_int sz, py + real_of_int sz] (Some color) None # cmds, g)))"

definition particle_marks ::
  "'g pil \<Rightarrow> nat \<Rightarrow> nat \<Rightarrow> (int \<Rightarrow> int \<Rightarrow> int list) \<Rightarrow> real \<Rightarrow> int \<Rightarrow> int \<Rightarrow> music_note \<Rightarrow> 'g
     \<Rightarrow> draw_cmd list \<times> 'g" where
  "particle_marks L w h color_of total_duration min_note note_range nt g =
     (case nt of (note, start, duration, vel) \<Rightarrow>
        (let x = time_x w total_duration (start + duration / 2);
             y = particle_y h min_note note_range note;
             color = color_of note vel;
             particle_count = py_int (real_of_int vel / 10)
         in particle_loop L (nat particle_count) x y color g))"

definition geometric_marks ::
  "nat \<Rightarrow> nat \<Rightarrow> (int \<Rightarrow> int \<Rightarrow> int list) \<Rightarrow> real \<Rightarrow> int \<Rightarrow> int \<Rightarrow> music_note \<Rightarrow> draw_cmd list" where
  "geometric_marks w h color_of total_duration min_note note_range nt =
     (case nt of (note, start, duration, vel) \<Rightarrow>
        (let x1 = real_of_int (time_x w total_duration start);
             x2 = real_of_int (time_x w total_duration (start + duration));
             y = geometric_y h min_note note_range note;
             color = color_of note vel
         in if note mod 3 = 0 then [Rectangle [x1, y - 15, x2, y + 15] (Some color) None]
            else if note mod 3 = 1 then [Polygon [x1, y, x2, y - 20, x2, y + 20] color]
            else [Ellipse [x1, y - 15, x2, y + 15] (Some color) None]))"

definition classic_marks ::
  "nat \<Rightarrow> nat \<Rightarrow> (int \<Rightarrow> int \<Rightarrow> int list) \<Rightarrow> real \<Rightarrow> int \<Rightarrow> int \<Rightarrow> music_note \<Rightarrow> draw_cmd list" where
  "classic_marks w h color_of total_duration min_note note_range nt =
     (case nt of (note, start, duration, vel) \<Rightarrow>
        (let x1 = real_of_int (time_x w total_duration start);
             x2 = real_of_int (time_x w total_duration (start + duration));
             y1 = classic_y h min_note note_range note;
             y2 = y1 - 20;
             color = color_of note vel
         in [Rectangle [x1, y1, x2, y2] (Some color) None]))"

text \<open>The loop over the notes: each note's calls are drawn on the canvas in turn.\<close>

fun draw_notes ::
  "'g pil \<Rightarrow> (music_note \<Rightarrow> 'g \<Rightarrow> draw_cmd list \<times> 'g) \<Rightarrow> music_note list \<Rightarrow> rgb canvas \<Rightarrow> 'g
     \<Rightarrow> rgb canvas" where
  "draw_notes L marks [] img g = img"
| "draw_notes L marks (nt # notes) img g =
     (case marks nt g of (cmds, g) \<Rightarrow> draw_notes L marks notes (fold (draw L) cmds img) g)"

definition zero_division :: "music_note list \<Rightarrow> real \<Rightarrow> int \<Rightarrow> bool" where
  "zero_division notes total_duration note_range =
     (notes \<noteq> [] \<and> (total_duration = 0 \<or> note_range = 0))"

definition create_watercolor_style ::
  "'g pil \<Rightarrow> 'g \<Rightarrow> music_note list \<Rightarrow> nat \<Rightarrow> nat \<Rightarrow> (int \<Rightarrow> int \<Rightarrow> int list) \<Rightarrow> real \<Rightarrow> int \<Rightarrow> int
     \<Rightarrow> error + rgb canvas" where
  "create_watercolor_style L g notes w h color_of total_duration min_note note_range =
     (if zero_division notes total_duration note_range then Inl ZeroDivisionError
      else Inr (smooth_more L
        (draw_notes L (watercolor_marks L w h color_of total_duration min_note note_range)
           notes (Image_new w h (240, 240, 235)) g)))"

definition create_neon_style ::
  "'g pil \<Rightarrow> 'g \<Rightarrow> music_note list \<Rightarrow> nat \<Rightarrow> nat \<Rightarrow> (int \<Rightarrow> int \<Rightarrow> int list) \<Rightarrow> real \<Rightarrow> int \<Rightarrow> int
     \<Rightarrow> error + rgb canvas" where
  "create_neon_style L g notes w h color_of total_duration min_note note_range =
     (if zero_division notes total_duration note_range then Inl ZeroDivisionError
      else Inr
        (draw_notes L (\<lambda>nt g. (neon_marks w h color_of total_duration min_note note_range nt, g))
           notes (Image_new w h (0, 0, 0)) g))"

definition create_particle_style ::
  "'g pil \<Rightarrow> 'g \<Rightarrow> music_note list \<Rightarrow> nat \<Rightarrow> nat \<Rightarrow> (int \<Rightarrow> int \<Rightarrow> int list) \<Rightarrow> real \<Rightarrow> int \<Rightarrow> int
     \<Rightarrow> error + rgb canvas" where
  "create_particle_style L g notes w h color_of total_duration min_note note_range =
     (if zero_division notes total_duration note_range then Inl ZeroDivisionError
      else Inr
        (draw_notes L (particle_marks L w h color_of total_duration min_note note_range)
           notes (Image_new w h (10, 10, 20)) g))"

definition create_geometric_style ::
  "'g pil \<Rightarrow> 'g \<Rightarrow> music_note list \<Rightarrow> nat \<Rightarrow> nat \<Rightarrow> (int \<Rightarrow> int \<Rightarrow> int list) \<Rightarrow> real \<Rightarrow> int \<Rightarrow> int
     \<Rightarrow> error + rgb canvas" where
  "create_geometric_style L g notes w h color_of total_duration min_note note_range =
     (if zero_division notes total_duration note_range then Inl ZeroDivisionError
      else Inr
        (draw_notes L
           (\<lambda>nt g. (geometric_marks w h color_of total_duration min_note note_range nt, g))
           notes (Image_new w h (250, 250, 245)) g))"

definition create_classic_style ::
  "'g pil \<Rightarrow> 'g \<Rightarrow> music_note list \<Rightarrow> nat \<Rightarrow> nat \<Rightarrow> (int \<Rightarrow> int \<Rightarrow> int list) \<Rightarrow> real \<Rightarrow> int \<Rightarrow> int
     \<Rightarrow> error + rgb canvas" where
  "create_classic_style L g notes w h color_of total_duration min_note note_range =
     (if zero_division notes total_duration note_range then Inl ZeroDivisionError
      else Inr
        (draw_notes L
           (\<lambda>nt g. (classic_marks w h color_of total_duration min_note note_range nt, g))
           notes (Image_new w h (20, 20, 30)) g))"

subsection \<open>The whole pass (lines 9--143)\<close>

text \<open>
  The returned image and, when \<open>img.save\<close> was reached, the path and image written. The
  decoded message stream \<open>mid\<close> is the input; decoding and encoding are the libraries'.
\<close>

record outcome =
  image :: "rgb canvas"
  saved :: "(string \<times> rgb canvas) option"

definition midi_to_artistic ::
  "'g pil \<Rightarrow> 'g \<Rightarrow> msg list \<Rightarrow> string \<Rightarrow> nat \<Rightarrow> nat \<Rightarrow> rgb \<Rightarrow> string \<Rightarrow> string \<Rightarrow> bool \<Rightarrow> real \<Rightarrow> real
     \<Rightarrow> error + outcome" where
  "midi_to_artistic L g mid output_path img_width img_height bg_color style palette
       enable_vinhetas blur_radius effect_intensity =
     (let events = collect_events mid;
          music_notes = calc_durations events
      in
      if music_notes = [] then
        Inr \<lparr>image = Image_new img_width img_height bg_color, saved = None\<rparr>
      else
        (case scene_extents music_notes of
           None \<Rightarrow> Inl ValueError
         | Some (total_duration, min_note, note_range) \<Rightarrow>
             (case
                (if style = ''watercolor'' then
                   create_watercolor_style L g music_notes img_width img_height
                     (get_color palette) total_duration min_note note_range
                 else if style = ''neon'' then
                   create_neon_style L g music_notes img_width img_height
                     (get_color palette) total_duration min_note note_range
                 else if style = ''particles'' then
                   create_particle_style L g music_notes img_width img_height
                     (get_color palette) total_duration min_note note_range
                 else if style = ''geometric'' then
                   create_geometric_style L g music_notes img_width img_height
                     (get_color palette) total_duration min_note note_range
                 else
                   create_classic_style L g music_notes img_width img_height
                     (get_color palette) total_duration min_note note_range)
              of
                Inl e \<Rightarrow> Inl e
              | Inr img \<Rightarrow>
                  (let img = (if blur_radius > 0 then gaussian_blur L blur_radius img else img);
                       img = (if enable_vinhetas then apply_vignette L img effect_intensity
                              else img)
                   in Inr \<lparr>image = img, saved = Some (output_path, img)\<rparr>))))"

subsection \<open>The coordinate functions and marks the specification names\<close>

text \<open>
  \<open>timeToX\<close> and \<open>pitchToY\<close> as the specification writes them, with the vertical margin a
  parameter, to compare the renderers with.
\<close>

definition spec_timeToX :: "nat \<Rightarrow> real \<Rightarrow> real \<Rightarrow> real" where
  "spec_timeToX w total_duration t = (t / total_duration) * real w"

definition spec_pitchToY :: "nat \<Rightarrow> real \<Rightarrow> int \<Rightarrow> int \<Rightarrow> int \<Rightarrow> real" where
  "spec_pitchToY h vertical_margin min_pitch pitch_range p =
     real h - (real_of_int (p - min_pitch) / real_of_int pitch_range) * (real h - vertical_margin)"


text \<open>The width and the alpha of a \<open>Line\<close> call.\<close>

definition line_width :: "draw_cmd \<Rightarrow> int" where
  "line_width cmd = (case cmd of Line xy ink wd \<Rightarrow> wd | _ \<Rightarrow> 0)"

definition line_alpha :: "draw_cmd \<Rightarrow> int" where
  "line_alpha cmd = (case cmd of Line xy [r, g, b, a] wd \<Rightarrow> a | _ \<Rightarrow> 255)"

section \<open>The interval builder\<close>

lemma pair_events_snoc: "pair_events (evs @ [e]) = note_step e (pair_events evs)"
  by (simp add: pair_events_def)

lemma open_start_snoc:
  "open_start (evs @ [e]) n s vel \<longleftrightarrow>
     e = (s, n, vel, ''start'') \<or> (open_start evs n s vel \<and> \<not> touches n e)"
proof
  assume "open_start (evs @ [e]) n s vel"
  then obtain pre mid where d: "evs @ [e] = pre @ (s, n, vel, ''start'') # mid"
    and nt: "\<forall>x \<in> set mid. \<not> touches n x"
    unfolding open_start_def by blast
  show "e = (s, n, vel, ''start'') \<or> (open_start evs n s vel \<and> \<not> touches n e)"
  proof (cases mid rule: rev_cases)
    case Nil
    with d show ?thesis by simp
  next
    case (snoc mid' e')
    with d have "evs @ [e] = (pre @ (s, n, vel, ''start'') # mid') @ [e']" by simp
    then have "evs = pre @ (s, n, vel, ''start'') # mid'" and "e = e'"
      by (simp_all only: append1_eq_conv)
    with nt snoc show ?thesis unfolding open_start_def by auto
  qed
next
  assume "e = (s, n, vel, ''start'') \<or> (open_start evs n s vel \<and> \<not> touches n e)"
  then show "open_start (evs @ [e]) n s vel"
  proof
    assume "e = (s, n, vel, ''start'')"
    then have "evs @ [e] = evs @ (s, n, vel, ''start'') # []" by simp
    then show ?thesis unfolding open_start_def by (metis empty_iff list.set(1))
  next
    assume a: "open_start evs n s vel \<and> \<not> touches n e"
    then obtain pre mid where "evs = pre @ (s, n, vel, ''start'') # mid"
      and "\<forall>x \<in> set mid. \<not> touches n x"
      unfolding open_start_def by blast
    with a have "evs @ [e] = pre @ (s, n, vel, ''start'') # (mid @ [e])"
      and "\<forall>x \<in> set (mid @ [e]). \<not> touches n x" by auto
    then show ?thesis unfolding open_start_def by blast
  qed
qed

lemma closed_pair_snoc:
  "closed_pair (evs @ [e]) x \<longleftrightarrow>
     closed_pair evs x \<or>
     (\<exists>s n vel t v. e = (t, n, v, ''end'') \<and> open_start evs n s vel \<and> t - s > 0 \<and>
        x = (n, s, t - s, vel))"
proof
  assume "closed_pair (evs @ [e]) x"
  then obtain pre mid post s n vel t v where
    d: "evs @ [e] = pre @ (s, n, vel, ''start'') # mid @ (t, n, v, ''end'') # post"
    and nt: "\<forall>y \<in> set mid. \<not> touches n y" and pos: "t - s > 0" and x: "x = (n, s, t - s, vel)"
    unfolding closed_pair_def by blast
  show "closed_pair evs x \<or>
     (\<exists>s n vel t v. e = (t, n, v, ''end'') \<and> open_start evs n s vel \<and> t - s > 0 \<and>
        x = (n, s, t - s, vel))"
  proof (cases post rule: rev_cases)
    case Nil
    with d have "evs @ [e] = (pre @ (s, n, vel, ''start'') # mid) @ [(t, n, v, ''end'')]"
      by simp
    then have "evs = pre @ (s, n, vel, ''start'') # mid" and "e = (t, n, v, ''end'')"
      by (simp_all only: append1_eq_conv)
    with nt have "open_start evs n s vel" and "e = (t, n, v, ''end'')"
      unfolding open_start_def by auto
    with pos x show ?thesis by blast
  next
    case (snoc post' e')
    with d have
      "evs @ [e] = (pre @ (s, n, vel, ''start'') # mid @ (t, n, v, ''end'') # post') @ [e']"
      by simp
    then have "evs = pre @ (s, n, vel, ''start'') # mid @ (t, n, v, ''end'') # post'"
      by (simp only: append1_eq_conv)
    with nt pos x have "closed_pair evs x" unfolding closed_pair_def by blast
    then show ?thesis ..
  qed
next
  assume "closed_pair evs x \<or>
     (\<exists>s n vel t v. e = (t, n, v, ''end'') \<and> open_start evs n s vel \<and> t - s > 0 \<and>
        x = (n, s, t - s, vel))"
  then show "closed_pair (evs @ [e]) x"
  proof
    assume "closed_pair evs x"
    then obtain pre mid post s n vel t v where
      "evs = pre @ (s, n, vel, ''start'') # mid @ (t, n, v, ''end'') # post"
      and r: "\<forall>y \<in> set mid. \<not> touches n y" "t - s > 0" "x = (n, s, t - s, vel)"
      unfolding closed_pair_def by blast
    then have "evs @ [e] = pre @ (s, n, vel, ''start'') # mid @ (t, n, v, ''end'') # (post @ [e])"
      by simp
    with r show ?thesis unfolding closed_pair_def by blast
  next
    assume "\<exists>s n vel t v. e = (t, n, v, ''end'') \<and> open_start evs n s vel \<and> t - s > 0 \<and>
        x = (n, s, t - s, vel)"
    then obtain s n vel t v where e: "e = (t, n, v, ''end'')" and os: "open_start evs n s vel"
      and r: "t - s > 0" "x = (n, s, t - s, vel)" by blast
    from os obtain pre mid where "evs = pre @ (s, n, vel, ''start'') # mid"
      and nt: "\<forall>y \<in> set mid. \<not> touches n y"
      unfolding open_start_def by blast
    with e have "evs @ [e] = pre @ (s, n, vel, ''start'') # mid @ (t, n, v, ''end'') # []"
      by simp
    with nt r show ?thesis unfolding closed_pair_def by blast
  qed
qed

lemma open_start_Nil: "\<not> open_start [] n s vel"
  by (simp add: open_start_def)

lemma closed_pair_Nil: "\<not> closed_pair [] x"
  by (simp add: closed_pair_def)

text \<open>The dictionary holds exactly the open starts of the events read so far.\<close>

lemma pending_after_iff:
  "pending_after evs n = Some (s, vel) \<longleftrightarrow> open_start evs n s vel"
proof (induction evs arbitrary: n s vel rule: rev_induct)
  case Nil
  show ?case by (simp add: pending_after_def pair_events_def open_start_Nil)
next
  case (snoc e evs)
  obtain t0 n0 v0 typ0 where e: "e = (t0, n0, v0, typ0)" by (cases e) auto
  obtain a out where st: "pair_events evs = (a, out)" by (cases "pair_events evs") auto
  have ih: "\<And>n s vel. a n = Some (s, vel) \<longleftrightarrow> open_start evs n s vel"
    using snoc.IH st by (simp add: pending_after_def)
  have fst_step: "fst (note_step e (a, out)) =
      (if typ0 = ''start'' then a(n0 \<mapsto> (t0, v0)) else if typ0 = ''end'' then a(n0 := None) else a)"
    by (auto simp: note_step_def e Let_def split: option.splits)
  show ?case
    unfolding pending_after_def pair_events_snoc st fst_step open_start_snoc
    using ih [of n s vel] by (auto simp: e touches_def)
qed

lemma calc_durations_snoc:
  "calc_durations (evs @ [(t, n, v, typ)]) =
     (if typ = ''end'' then
        (case pending_after evs n of
           None \<Rightarrow> calc_durations evs
         | Some (s, vel) \<Rightarrow>
             if t - s > 0 then calc_durations evs @ [(n, s, t - s, vel)] else calc_durations evs)
      else calc_durations evs)"
  by (cases "pair_events evs")
     (auto simp: calc_durations_def pending_after_def pair_events_snoc note_step_def Let_def
           split: option.splits)

text \<open>The output holds exactly the closed pairs of the events read.\<close>

lemma calc_durations_iff: "x \<in> set (calc_durations evs) \<longleftrightarrow> closed_pair evs x"
proof (induction evs rule: rev_induct)
  case Nil
  show ?case by (simp add: calc_durations_def pair_events_def closed_pair_Nil)
next
  case (snoc e evs)
  obtain t0 n0 v0 typ0 where e: "e = (t0, n0, v0, typ0)" by (cases e) auto
  show ?case
  proof (cases "typ0 = ''end''")
    case False
    then show ?thesis
      unfolding e calc_durations_snoc closed_pair_snoc using snoc.IH by simp
  next
    case True
    show ?thesis
    proof (cases "pending_after evs n0")
      case None
      then have "\<And>s vel. \<not> open_start evs n0 s vel"
        using pending_after_iff [of evs n0] by simp
      with None True show ?thesis
        unfolding e calc_durations_snoc closed_pair_snoc using snoc.IH by auto
    next
      case (Some p)
      obtain s0 vel0 where p: "p = (s0, vel0)" by (cases p) auto
      have uniq: "s = s0 \<and> vel = vel0" if "open_start evs n0 s vel" for s vel
        using that pending_after_iff [of evs n0 s vel] Some p by simp
      have ex: "open_start evs n0 s0 vel0"
        using pending_after_iff [of evs n0 s0 vel0] Some p by simp
      have "x \<in> set (calc_durations (evs @ [e])) \<longleftrightarrow>
              closed_pair evs x \<or> (t0 - s0 > 0 \<and> x = (n0, s0, t0 - s0, vel0))"
        unfolding e calc_durations_snoc using snoc.IH Some p True by auto
      also have "\<dots> \<longleftrightarrow> closed_pair (evs @ [e]) x"
        unfolding closed_pair_snoc e using True uniq ex by blast
      finally show ?thesis .
    qed
  qed
qed

text \<open>
  Claim C1. The builder emits an interval exactly when an end event finds a pending start
  for its pitch with positive elapsed time: \<open>x\<close> is in the output if and only if the
  events contain a start of \<open>x\<close>'s pitch, then events that do not concern the pitch, then
  an end of the pitch later by \<open>x\<close>'s positive duration. Reading one more end event
  appends that one interval when a start is pending and the elapsed time is positive, and
  otherwise leaves the output as it is (no pending start is not an error); either way
  nothing stays pending for the pitch. Reading one more start emits nothing and makes
  that start the pending one, whatever was pending before.
\<close>

theorem interval_builder_emits_exactly:
  "(x \<in> set (calc_durations evs) \<longleftrightarrow>
      (\<exists>pre mid post s p vel e w.
         evs = pre @ (s, p, vel, ''start'') # mid @ (e, p, w, ''end'') # post \<and>
         (\<forall>ev \<in> set mid. \<not> touches p ev) \<and> e - s > 0 \<and> x = (p, s, e - s, vel))) \<and>
   calc_durations (evs @ [(t, n, v, ''end'')]) =
     (case pending_after evs n of
        None \<Rightarrow> calc_durations evs
      | Some (s, vel) \<Rightarrow>
          if t - s > 0 then calc_durations evs @ [(n, s, t - s, vel)] else calc_durations evs) \<and>
   pending_after (evs @ [(t, n, v, ''end'')]) n = None \<and>
   calc_durations (evs @ [(t, n, v, ''start'')]) = calc_durations evs \<and>
   pending_after (evs @ [(t, n, v, ''start'')]) n = Some (t, v)"
proof -
  have a: "x \<in> set (calc_durations evs) \<longleftrightarrow>
      (\<exists>pre mid post s p vel e w.
         evs = pre @ (s, p, vel, ''start'') # mid @ (e, p, w, ''end'') # post \<and>
         (\<forall>ev \<in> set mid. \<not> touches p ev) \<and> e - s > 0 \<and> x = (p, s, e - s, vel))"
    unfolding calc_durations_iff closed_pair_def ..
  have b: "calc_durations (evs @ [(t, n, v, ''end'')]) =
     (case pending_after evs n of
        None \<Rightarrow> calc_durations evs
      | Some (s, vel) \<Rightarrow>
          if t - s > 0 then calc_durations evs @ [(n, s, t - s, vel)] else calc_durations evs)"
    by (simp add: calc_durations_snoc)
  have c: "pending_after (evs @ [(t, n, v, ''end'')]) n = None"
    by (cases "pair_events evs")
       (auto simp: pending_after_def pair_events_snoc note_step_def Let_def split: option.splits)
  have d: "calc_durations (evs @ [(t, n, v, ''start'')]) = calc_durations evs"
    by (simp add: calc_durations_snoc)
  have e: "pending_after (evs @ [(t, n, v, ''start'')]) n = Some (t, v)"
    by (cases "pair_events evs") (simp add: pending_after_def pair_events_snoc note_step_def)
  from a b c d e show ?thesis by blast
qed

text \<open>
  The theorem at a start of pitch 60 at time 0, a start of pitch 62, and then: an end of
  pitch 60 at time 1 (one interval); an end of pitch 64, which has no pending start
  (nothing); an end of pitch 60 at time 0 (zero duration, nothing); a second start of
  pitch 60 (it replaces the pending one).
\<close>

theorem interval_builder_witness:
  "(\<exists>pre mid post s p vel e w.
      [(0, 60, 100, ''start''), (1/2, 62, 90, ''start''), (1, 60, 0, ''end'')] =
        pre @ (s, p, vel, ''start'') # mid @ (e, p, w, ''end'') # post \<and>
      (\<forall>ev \<in> set mid. \<not> touches p ev) \<and> e - s > 0 \<and>
      ((60, 0, 1, 100) :: music_note) = (p, s, e - s, vel)) \<and>
   calc_durations ([(0, 60, 100, ''start''), (1/2, 62, 90, ''start'')] @ [(1, 60, 0, ''end'')]) =
     [(60, 0, 1, 100)] \<and>
   calc_durations ([(0, 60, 100, ''start''), (1/2, 62, 90, ''start'')] @ [(1, 64, 0, ''end'')]) = [] \<and>
   calc_durations ([(0, 60, 100, ''start''), (1/2, 62, 90, ''start'')] @ [(0, 60, 0, ''end'')]) = [] \<and>
   pending_after ([(0, 60, 100, ''start''), (1/2, 62, 90, ''start'')] @ [(1, 60, 70, ''start'')]) 60 =
     Some (1, 70)"
proof -
  let ?evs = "[(0, 60, 100, ''start''), (1/2, 62, 90, ''start'')] :: event list"
  have m: "((60, 0, 1, 100) :: music_note) \<in> set (calc_durations (?evs @ [(1, 60, 0, ''end'')]))"
    by (simp add: calc_durations_def pair_events_def note_step_def)
  have p60: "pending_after ?evs 60 = Some (0, 100)"
    by (simp add: pending_after_def pair_events_def note_step_def)
  have p64: "pending_after ?evs 64 = None"
    by (simp add: pending_after_def pair_events_def note_step_def)
  have c0: "calc_durations ?evs = []"
    by (simp add: calc_durations_def pair_events_def note_step_def)
  show ?thesis
    using interval_builder_emits_exactly [of "(60, 0, 1, 100)" "?evs @ [(1, 60, 0, ''end'')]" 0 60 0]
      interval_builder_emits_exactly [of "(60, 0, 1, 100)" ?evs 1 60 0]
      interval_builder_emits_exactly [of "(60, 0, 1, 100)" ?evs 1 64 0]
      interval_builder_emits_exactly [of "(60, 0, 1, 100)" ?evs 0 60 0]
      interval_builder_emits_exactly [of "(60, 0, 1, 100)" ?evs 1 60 70]
      m p60 p64 c0
    by simp
qed

section \<open>The velocity of an interval\<close>

lemma note_step_end_velocity: "note_step (with_end_velocity f e) st = note_step e st"
  by (cases e; cases st) (simp add: with_end_velocity_def note_step_def)

lemma pair_events_end_velocity: "pair_events (map (with_end_velocity f) evs) = pair_events evs"
  by (induction evs rule: rev_induct) (simp_all add: pair_events_def note_step_end_velocity)

lemma msg_step_off_velocity: "msg_step (with_off_velocity f m) st = msg_step m st"
  by (cases st) (simp add: with_off_velocity_def msg_step_def)

lemma fold_msg_step_off_velocity:
  "fold msg_step (map (with_off_velocity f) msgs) st = fold msg_step msgs st"
  by (induction msgs arbitrary: st) (simp_all add: msg_step_off_velocity)

lemma msg_step_end_zero:
  assumes "\<And>t n v. (t, n, v, ''end'') \<in> set (snd st) \<Longrightarrow> v = 0"
    and "(t, n, v, ''end'') \<in> set (snd (msg_step m st))"
  shows "v = 0"
  using assms by (cases st) (auto simp: msg_step_def Let_def split: if_splits)

lemma fold_msg_step_end_zero:
  "(t, n, v, ''end'') \<in> set (snd (fold msg_step msgs (c, []))) \<Longrightarrow> v = 0"
proof (induction msgs arbitrary: t n v rule: rev_induct)
  case Nil
  then show ?case by simp
next
  case (snoc m msgs)
  show ?case
  proof (rule msg_step_end_zero [of "fold msg_step msgs (c, [])" t n v m])
    show "\<And>t n v. (t, n, v, ''end'') \<in> set (snd (fold msg_step msgs (c, []))) \<Longrightarrow> v = 0"
      using snoc.IH by blast
    show "(t, n, v, ''end'') \<in> set (snd (msg_step m (fold msg_step msgs (c, []))))"
      using snoc.prems by simp
  qed
qed

text \<open>
  Claim C10. The velocity of an emitted interval is the velocity of the start it was
  paired with, the latest start of its pitch before the end. The first loop records every
  end event with velocity 0, and the velocity an end carries is never read: replacing
  the velocities of the end events, or of the note-off messages, changes no output.
\<close>

theorem interval_velocity_is_start_velocity:
  "((p, s, d, vel) \<in> set (calc_durations evs) \<longrightarrow>
      (\<exists>pre mid post w.
         evs = pre @ (s, p, vel, ''start'') # mid @ (s + d, p, w, ''end'') # post \<and>
         (\<forall>ev \<in> set mid. \<not> touches p ev))) \<and>
   ((t, n, v, ''end'') \<in> set (collect_events msgs) \<longrightarrow> v = 0) \<and>
   calc_durations (map (with_end_velocity f) evs) = calc_durations evs \<and>
   collect_events (map (with_off_velocity g) msgs) = collect_events msgs"
proof -
  have a: "(p, s, d, vel) \<in> set (calc_durations evs) \<longrightarrow>
      (\<exists>pre mid post w.
         evs = pre @ (s, p, vel, ''start'') # mid @ (s + d, p, w, ''end'') # post \<and>
         (\<forall>ev \<in> set mid. \<not> touches p ev))"
  proof
    assume "(p, s, d, vel) \<in> set (calc_durations evs)"
    then have "closed_pair evs (p, s, d, vel)" by (simp add: calc_durations_iff)
    then obtain pre mid post s' n' vel' t' w where
      d: "evs = pre @ (s', n', vel', ''start'') # mid @ (t', n', w, ''end'') # post"
      and nt: "\<forall>e \<in> set mid. \<not> touches n' e" and eq: "(p, s, d, vel) = (n', s', t' - s', vel')"
      unfolding closed_pair_def by blast
    from eq have "n' = p" "s' = s" "vel' = vel" "t' = s + d" by auto
    with d nt show "\<exists>pre mid post w.
         evs = pre @ (s, p, vel, ''start'') # mid @ (s + d, p, w, ''end'') # post \<and>
         (\<forall>ev \<in> set mid. \<not> touches p ev)" by blast
  qed
  have b: "(t, n, v, ''end'') \<in> set (collect_events msgs) \<longrightarrow> v = 0"
    unfolding collect_events_def using fold_msg_step_end_zero by blast
  have c: "calc_durations (map (with_end_velocity f) evs) = calc_durations evs"
    by (simp add: calc_durations_def pair_events_end_velocity)
  have d: "collect_events (map (with_off_velocity g) msgs) = collect_events msgs"
    by (simp add: collect_events_def fold_msg_step_off_velocity)
  from a b c d show ?thesis by blast
qed

text \<open>
  The theorem at two starts of pitch 60 (velocities 100 and 90) and an end carrying
  velocity 64: the interval has velocity 90.
\<close>

theorem interval_velocity_witness:
  "(\<exists>pre mid post w.
      [(0, 60, 100, ''start''), (1/2, 60, 90, ''start''), (1, 60, 64, ''end'')] =
        pre @ (1/2, 60, 90, ''start'') # mid @ (1/2 + 1/2, 60, w, ''end'') # post \<and>
      (\<forall>ev \<in> set mid. \<not> touches 60 ev)) \<and>
   collect_events
     [\<lparr>is_meta = False, msg_time = 0, msg_type = ''note_on'', msg_note = 60, msg_velocity = 100\<rparr>,
      \<lparr>is_meta = False, msg_time = 1, msg_type = ''note_off'', msg_note = 60, msg_velocity = 64\<rparr>] =
     [(0, 60, 100, ''start''), (1, 60, 0, ''end'')] \<and>
   calc_durations
     (map (with_end_velocity (\<lambda>t n. 0))
        [(0, 60, 100, ''start''), (1/2, 60, 90, ''start''), (1, 60, 64, ''end'')]) =
     [(60, 1/2, 1/2, 90)] \<and>
   collect_events (map (with_off_velocity (\<lambda>m. 0))
     [\<lparr>is_meta = False, msg_time = 0, msg_type = ''note_on'', msg_note = 60, msg_velocity = 100\<rparr>,
      \<lparr>is_meta = False, msg_time = 1, msg_type = ''note_off'', msg_note = 60, msg_velocity = 64\<rparr>]) =
     [(0, 60, 100, ''start''), (1, 60, 0, ''end'')]"
proof -
  let ?evs = "[(0, 60, 100, ''start''), (1/2, 60, 90, ''start''), (1, 60, 64, ''end'')] :: event list"
  let ?msgs = "[\<lparr>is_meta = False, msg_time = 0, msg_type = ''note_on'', msg_note = 60, msg_velocity = 100\<rparr>,
      \<lparr>is_meta = False, msg_time = 1, msg_type = ''note_off'', msg_note = 60, msg_velocity = 64\<rparr>]"
  have c: "calc_durations ?evs = [(60, 1/2, 1/2, 90)]"
    by (simp add: calc_durations_def pair_events_def note_step_def)
  have e: "collect_events ?msgs = [(0, 60, 100, ''start''), (1, 60, 0, ''end'')]"
    by (simp add: collect_events_def msg_step_def)
  show ?thesis
    using interval_velocity_is_start_velocity
      [of 60 "1/2" "1/2" 90 ?evs 1 60 0 ?msgs "\<lambda>t n. 0" "\<lambda>m. 0"] c e
    by simp
qed

section \<open>Scene extents\<close>

lemma py_max_Max: "xs \<noteq> [] \<Longrightarrow> py_max xs = Some (Max (set xs))"
proof (cases xs)
  case Nil
  assume "xs \<noteq> []"
  with Nil show ?thesis by simp
next
  case (Cons a list)
  then show ?thesis using Max.set_eq_fold [of a list] by simp
qed

lemma py_min_Min: "xs \<noteq> [] \<Longrightarrow> py_min xs = Some (Min (set xs))"
proof (cases xs)
  case Nil
  assume "xs \<noteq> []"
  with Nil show ?thesis by simp
next
  case (Cons a list)
  then show ?thesis using Min.set_eq_fold [of a list] by simp
qed

text \<open>
  Claim C3. For a non-empty collection the extents are computed (no error):
  \<open>total_duration\<close> is the largest \<open>start + duration\<close>, or 1 when that is zero, and is at
  least every \<open>start + duration\<close>; \<open>min_note\<close> is the least pitch; \<open>note_range\<close> is the
  larger of the pitch span and 1, so at least 1.
\<close>

theorem scene_extents_bounds:
  assumes "music_notes \<noteq> []"
  shows "\<exists>td mn nr. scene_extents music_notes = Some (td, mn, nr) \<and>
    td = (let m = Max ((\<lambda>(note, start, duration, vel). start + duration) ` set music_notes)
          in if m = 0 then 1 else m) \<and>
    (\<forall>(note, start, duration, vel) \<in> set music_notes. start + duration \<le> td) \<and>
    mn = Min ((\<lambda>(note, start, duration, vel). note) ` set music_notes) \<and>
    nr = max (Max ((\<lambda>(note, start, duration, vel). note) ` set music_notes) -
              Min ((\<lambda>(note, start, duration, vel). note) ` set music_notes)) 1 \<and>
    nr \<ge> 1"
proof -
  let ?e = "\<lambda>(note :: int, start :: real, duration :: real, vel :: int). start + duration"
  let ?n = "\<lambda>(note :: int, start :: real, duration :: real, vel :: int). note"
  let ?M = "Max (?e ` set music_notes)"
  let ?td = "if ?M = 0 then 1 else ?M"
  have se: "scene_extents music_notes =
      Some (?td, Min (?n ` set music_notes),
            max (Max (?n ` set music_notes) - Min (?n ` set music_notes)) 1)"
    using assms by (simp add: scene_extents_def py_max_Max py_min_Min Let_def)
  have le: "st + du \<le> ?td" if "(nt, st, du, ve) \<in> set music_notes" for nt st du ve
  proof -
    have "?e (nt, st, du, ve) \<in> ?e ` set music_notes" using that by (rule imageI)
    then have "st + du \<le> ?M" by simp
    then show ?thesis by (simp split: if_splits)
  qed
  show ?thesis unfolding se using le by (auto simp: Let_def)
qed

text \<open>The theorem at the three notes of the specification's example.\<close>

theorem scene_extents_witness:
  "[(60, 0, 1, 100), (64, 1/2, 1, 80), (67, 3/2, 1/2, 110)] \<noteq> ([] :: music_note list) \<and>
   (\<exists>td mn nr.
      scene_extents [(60, 0, 1, 100), (64, 1/2, 1, 80), (67, 3/2, 1/2, 110)] = Some (td, mn, nr) \<and>
      (\<forall>(note, start, duration, vel)
         \<in> set ([(60, 0, 1, 100), (64, 1/2, 1, 80), (67, 3/2, 1/2, 110)] :: music_note list).
         start + duration \<le> td) \<and> nr \<ge> 1) \<and>
   scene_extents [(60, 0, 1, 100), (64, 1/2, 1, 80), (67, 3/2, 1/2, 110)] = Some (2, 60, 7)"
proof -
  have ne: "[(60, 0, 1, 100), (64, 1/2, 1, 80), (67, 3/2, 1/2, 110)] \<noteq> ([] :: music_note list)"
    by simp
  have v: "scene_extents [(60, 0, 1, 100), (64, 1/2, 1, 80), (67, 3/2, 1/2, 110)] = Some (2, 60, 7)"
    by (simp add: scene_extents_def)
  from scene_extents_bounds [OF ne] obtain td mn nr where
    "scene_extents [(60, 0, 1, 100), (64, 1/2, 1, 80), (67, 3/2, 1/2, 110)] = Some (td, mn, nr)"
    "\<forall>(note, start, duration, vel) \<in> set ([(60, 0, 1, 100), (64, 1/2, 1, 80), (67, 3/2, 1/2, 110)] :: music_note list).
         start + duration \<le> td" "nr \<ge> 1"
    by blast
  with ne v show ?thesis by blast
qed

section \<open>The colour mapper\<close>

lemma length_hsv_to_rgb: "length (hsv_to_rgb h s v) = 3"
  by (simp add: hsv_to_rgb_def Let_def)

lemma length_ocean: "length (dict_get ocean_palettes k [200, 200, 200]) = 3"
  by (simp add: dict_get_def ocean_palettes_def)

lemma length_forest: "length (dict_get forest_palettes k [200, 200, 200]) = 3"
  by (simp add: dict_get_def forest_palettes_def)

lemma length_sunset: "length (dict_get sunset_palettes k [255, 255, 200]) = 3"
  by (simp add: dict_get_def sunset_palettes_def)

lemma get_color_triple: "length (get_color palette n v) = 3"
  by (simp add: get_color_def Let_def length_hsv_to_rgb length_ocean length_forest length_sunset)

lemma get_color_rgb: "\<exists>c1 c2 c3. get_color palette n v = [c1, c2, c3]"
  using get_color_triple [of palette n v] by (auto simp: length_Suc_conv numeral_3_eq_3)



section \<open>The style renderers\<close>




lemma draw_notes_concat:
  "draw_notes L (\<lambda>nt g. (marks nt, g)) ns img g = fold (draw L) (concat (map marks ns)) img"
  by (induction ns arbitrary: img) simp_all




lemma neon_marks_lines:
  "neon_marks w h (get_color palette) td mn nr (p, start, duration, vel) =
     (let x1 = real_of_int (time_x w td start);
          x2 = real_of_int (time_x w td (start + duration));
          y = neon_y h mn nr p;
          color = get_color palette p vel
      in map (\<lambda>(wd, a). Line [x1, y, x2, y] (color @ [a]) wd)
           [(20, 0), (18, 255), (16, 255), (14, 255), (12, 255), (10, 255), (8, 255), (6, 255),
            (4, 255), (2, 255)]
         @ [Line [x1, y, x2, y] color 3])"
  by (simp add: neon_marks_def Let_def get_color_triple py_int_def)

text \<open>
  Claim C6, as amended. For each note the neon renderer issues ten lines along the note,
  of widths 20, 18, ..., 2, in the note's colour with an alpha component that is 0 for
  the first line and 255 for the nine others, and then one line of width 3 in the note's
  colour. The calls are drawn in the order of the notes on a black canvas.
\<close>

theorem neon_glow_lines:
  "neon_marks w h (get_color palette) td mn nr (p, start, duration, vel) =
     (let x1 = real_of_int (py_int (spec_timeToX w td start));
          x2 = real_of_int (py_int (spec_timeToX w td (start + duration)));
          y = spec_pitchToY h 50 mn nr p;
          color = get_color palette p vel
      in map (\<lambda>(wd, a). Line [x1, y, x2, y] (color @ [a]) wd)
           [(20, 0), (18, 255), (16, 255), (14, 255), (12, 255), (10, 255), (8, 255), (6, 255),
            (4, 255), (2, 255)]
         @ [Line [x1, y, x2, y] color 3]) \<and>
   map line_width (neon_marks w h (get_color palette) td mn nr (p, start, duration, vel)) =
     [20, 18, 16, 14, 12, 10, 8, 6, 4, 2, 3] \<and>
   map line_alpha (take 10 (neon_marks w h (get_color palette) td mn nr (p, start, duration, vel))) =
     [0, 255, 255, 255, 255, 255, 255, 255, 255, 255] \<and>
   create_neon_style L g ns w h (get_color palette) td mn nr =
     (if zero_division ns td nr then Inl ZeroDivisionError
      else Inr (fold (draw L) (concat (map (neon_marks w h (get_color palette) td mn nr) ns))
                  (Image_new w h (0, 0, 0))))"
proof -
  obtain c1 c2 c3 where c: "get_color palette p vel = [c1, c2, c3]"
    using get_color_rgb by blast
  have lines: "neon_marks w h (get_color palette) td mn nr (p, start, duration, vel) =
     (let x1 = real_of_int (py_int (spec_timeToX w td start));
          x2 = real_of_int (py_int (spec_timeToX w td (start + duration)));
          y = spec_pitchToY h 50 mn nr p;
          color = get_color palette p vel
      in map (\<lambda>(wd, a). Line [x1, y, x2, y] (color @ [a]) wd)
           [(20, 0), (18, 255), (16, 255), (14, 255), (12, 255), (10, 255), (8, 255), (6, 255),
            (4, 255), (2, 255)]
         @ [Line [x1, y, x2, y] color 3])"
    by (simp add: neon_marks_lines Let_def neon_y_def spec_pitchToY_def time_x_def
          spec_timeToX_def)
  have widths: "map line_width (neon_marks w h (get_color palette) td mn nr (p, start, duration, vel)) =
     [20, 18, 16, 14, 12, 10, 8, 6, 4, 2, 3]"
    by (simp add: neon_marks_lines Let_def line_width_def)
  have alphas: "map line_alpha
       (take 10 (neon_marks w h (get_color palette) td mn nr (p, start, duration, vel))) =
     [0, 255, 255, 255, 255, 255, 255, 255, 255, 255]"
    by (simp add: neon_marks_lines Let_def line_alpha_def c)
  have style: "create_neon_style L g ns w h (get_color palette) td mn nr =
     (if zero_division ns td nr then Inl ZeroDivisionError
      else Inr (fold (draw L) (concat (map (neon_marks w h (get_color palette) td mn nr) ns))
                  (Image_new w h (0, 0, 0))))"
    by (simp add: create_neon_style_def draw_notes_concat)
  show ?thesis by (intro conjI) (rule lines, rule widths, rule alphas, rule style)
qed

text \<open>
  The theorem at the note of pitch 60 from time 0 to 1, on a canvas 1000 wide and 300
  high, in a scene of total duration 2 with pitches from 60 to 67.
\<close>

theorem neon_glow_witness:
  "map line_width (neon_marks 1000 300 (get_color ''hsv'') 2 60 7 (60, 0, 1, 100)) =
     [20, 18, 16, 14, 12, 10, 8, 6, 4, 2, 3] \<and>
   map line_alpha (take 10 (neon_marks 1000 300 (get_color ''hsv'') 2 60 7 (60, 0, 1, 100))) =
     [0, 255, 255, 255, 255, 255, 255, 255, 255, 255]"
proof -
  note t = neon_glow_lines [of 1000 300 "''hsv''" 2 60 7 60 0 1 100
      "\<lparr>draw = (\<lambda>c i. i), gaussian_blur = (\<lambda>r i. i), smooth_more = (\<lambda>i. i),
      blend = (\<lambda>p q. q), randint = (\<lambda>a b (g :: nat). (a, g))\<rparr>" 0 "[]"]
  show ?thesis
    by (intro conjI) (rule t [THEN conjunct2, THEN conjunct1],
      rule t [THEN conjunct2, THEN conjunct2, THEN conjunct1])
qed

text \<open>
  Claim C6 as stated fails at that note: the alpha of the second line is larger than the
  alpha of the first, so the alphas do not decrease.
\<close>

theorem neon_alpha_not_decreasing:
  "map line_alpha (take 10 (neon_marks 1000 300 (get_color ''hsv'') 2 60 7 (60, 0, 1, 100))) =
     [0, 255, 255, 255, 255, 255, 255, 255, 255, 255] \<and>
   \<not> sorted_wrt (\<lambda>a b. a \<ge> b)
       (map line_alpha (take 10 (neon_marks 1000 300 (get_color ''hsv'') 2 60 7 (60, 0, 1, 100))))"
proof -
  obtain c1 c2 c3 where c: "get_color ''hsv'' 60 100 = [c1, c2, c3]"
    using get_color_rgb by blast
  show ?thesis
    by (simp add: neon_marks_lines Let_def line_alpha_def c)
qed

section \<open>The vignette\<close>

lemma py_int_0: "py_int 0 = 0"
  by (simp add: py_int_def)

lemma vignette_ring_zero:
  "vignette_ring w h mb 0 i (Image_new w h (0, 0, 0, 0)) = Image_new w h (0, 0, 0, 0)"
  by (simp add: vignette_ring_def rectangle_outline_def Image_new_def py_int_0 fun_eq_iff)

lemma vignette_rings_zero:
  "fold (vignette_ring w h mb 0) is (Image_new w h (0, 0, 0, 0)) = Image_new w h (0, 0, 0, 0)"
  by (induction "is") (simp_all add: vignette_ring_zero)

lemma alpha_composite_transparent:
  "alpha_composite L img (Image_new w h (0, 0, 0, 0)) = img"
  by (simp add: alpha_composite_def Image_new_def)

lemma convert_round_trip: "convert_RGB (convert_RGBA img) = img"
  by (cases img) (simp add: convert_RGB_def convert_RGBA_def fun_eq_iff split: prod.splits)

text \<open>
  Claim C9. With intensity 0 every ring is drawn with alpha 0 on the transparent overlay,
  the overlay stays fully transparent, and compositing it leaves every pixel: the
  vignette step returns the canvas it was given, whatever the canvas and the library's
  blending.
\<close>

theorem vignette_zero_identity: "apply_vignette L img 0 = img"
  by (simp add: apply_vignette_def Let_def vignette_rings_zero alpha_composite_transparent
        convert_round_trip)

text \<open>The theorem on a 9 by 6 canvas of one colour.\<close>

theorem vignette_zero_witness:
  "apply_vignette
     \<lparr>draw = (\<lambda>c i. i), gaussian_blur = (\<lambda>r i. i), smooth_more = (\<lambda>i. i),
      blend = (\<lambda>p q. q), randint = (\<lambda>a b (g :: nat). (a, g))\<rparr>
     (Image_new 9 6 (10, 20, 30)) 0 = Image_new 9 6 (10, 20, 30)"
  by (rule vignette_zero_identity)

section \<open>The whole pass\<close>




text \<open>
  Claim C2. When no interval is reconstructed the pass returns, whatever the style, the
  blur radius, the vignette switch and the library, the canvas just created: of the
  requested width and height, every pixel the background colour; nothing is saved.
\<close>

theorem empty_collection_blank_canvas:
  assumes "calc_durations (collect_events mid) = []"
  shows "midi_to_artistic L g mid path w h bg style palette vin blur eff =
           Inr \<lparr>image = Image_new w h bg, saved = None\<rparr> \<and>
         width (Image_new w h bg) = w \<and> height (Image_new w h bg) = h \<and>
         (\<forall>x y. pixel (Image_new w h bg) x y = bg)"
  using assms by (simp add: midi_to_artistic_def Image_new_def)

text \<open>The theorem at a note-on and a note-off at the same time, style neon.\<close>

theorem empty_collection_witness:
  "calc_durations (collect_events
     [\<lparr>is_meta = False, msg_time = 1, msg_type = ''note_on'', msg_note = 60, msg_velocity = 100\<rparr>,
      \<lparr>is_meta = False, msg_time = 0, msg_type = ''note_off'', msg_note = 60, msg_velocity = 0\<rparr>]) = [] \<and>
   midi_to_artistic
     \<lparr>draw = (\<lambda>c i. i), gaussian_blur = (\<lambda>r i. i), smooth_more = (\<lambda>i. i),
      blend = (\<lambda>p q. q), randint = (\<lambda>a b (g :: nat). (a, g))\<rparr> 0
     [\<lparr>is_meta = False, msg_time = 1, msg_type = ''note_on'', msg_note = 60, msg_velocity = 100\<rparr>,
      \<lparr>is_meta = False, msg_time = 0, msg_type = ''note_off'', msg_note = 60, msg_velocity = 0\<rparr>]
     ''out.png'' 2000 500 (15, 15, 25) ''neon'' ''hsv'' True (1/2) (7/10) =
       Inr \<lparr>image = Image_new 2000 500 (15, 15, 25), saved = None\<rparr> \<and>
   pixel (Image_new 2000 500 (15, 15, 25)) 1999 499 = ((15, 15, 25) :: rgb)"
proof -
  let ?mid = "[\<lparr>is_meta = False, msg_time = 1, msg_type = ''note_on'', msg_note = 60, msg_velocity = 100\<rparr>,
      \<lparr>is_meta = False, msg_time = 0, msg_type = ''note_off'', msg_note = 60, msg_velocity = 0\<rparr>]"
  have e: "calc_durations (collect_events ?mid) = []"
    by (simp add: collect_events_def msg_step_def calc_durations_def pair_events_def note_step_def)
  from empty_collection_blank_canvas [OF e, of
      "\<lparr>draw = (\<lambda>c i. i), gaussian_blur = (\<lambda>r i. i), smooth_more = (\<lambda>i. i),
        blend = (\<lambda>p q. q), randint = (\<lambda>a b (g :: nat). (a, g))\<rparr>" 0
      "''out.png''" 2000 500 "(15, 15, 25)" "''neon''" "''hsv''" True "1/2" "7/10"] e
  show ?thesis by simp
qed



end
